theory Spec2Isabelle
  imports Main "HOL-Library.AList"
begin

section \<open>JavaScript values\<close>

text \<open>
  The values that flow through \<^verbatim>\<open>src/model/model.js\<close>. An object is the list of its own
  properties in insertion order; a property that is listed twice has the value of its
  first entry. Numbers are the integers (of magnitude below \<open>10^21\<close>, where JavaScript
  prints them in plain decimal). A function of the caller's is known by a label that
  stands for its source text, which is what JavaScript's string conversion returns for
  it. The two functions that \<^verbatim>\<open>fetch\<close> itself makes (lines 260 to 268) are closures: which
  of the two it is, and the \<^verbatim>\<open>opts\<close> it closes over. Prototype chains, arrays and property
  getters are outside the model.
\<close>

datatype handler = Success_handler | Error_handler

datatype jsval =
    Undefined
  | Null
  | Bool bool
  | Num int
  | Str string
  | Obj "(string \<times> jsval) list"
  | Fun string
  | Closure handler jsval

type_synonym object = "(string \<times> jsval) list"

text \<open>The \<^verbatim>\<open>typeof\<close> operator.\<close>

fun typeof :: "jsval \<Rightarrow> string" where
  "typeof Undefined = ''undefined''"
| "typeof Null = ''object''"
| "typeof (Bool b) = ''boolean''"
| "typeof (Num n) = ''number''"
| "typeof (Str s) = ''string''"
| "typeof (Obj xs) = ''object''"
| "typeof (Fun f) = ''function''"
| "typeof (Closure h opts) = ''function''"

text \<open>Conversion to a boolean, as \<^verbatim>\<open>!v\<close> and \<^verbatim>\<open>v || w\<close> and \<^verbatim>\<open>v ? a : b\<close> do it.\<close>

fun truthy :: "jsval \<Rightarrow> bool" where
  "truthy Undefined = False"
| "truthy Null = False"
| "truthy (Bool b) = b"
| "truthy (Num n) = (n \<noteq> 0)"
| "truthy (Str s) = (s \<noteq> [])"
| "truthy (Obj xs) = True"
| "truthy (Fun f) = True"
| "truthy (Closure h opts) = True"

text \<open>Decimal digits of a natural number, most significant first.\<close>

fun dec :: "nat \<Rightarrow> string" where
  "dec n = (if n < 10 then [''0123456789'' ! n]
            else dec (n div 10) @ [''0123456789'' ! (n mod 10)])"

declare dec.simps [simp del]

text \<open>Conversion of a value to a property name, as \<^verbatim>\<open>o[key] = val\<close> does it.\<close>

fun prop_key :: "jsval \<Rightarrow> string" where
  "prop_key Undefined = ''undefined''"
| "prop_key Null = ''null''"
| "prop_key (Bool b) = (if b then ''true'' else ''false'')"
| "prop_key (Num n) = (if n < 0 then ''-'' @ dec (nat (- n)) else dec (nat n))"
| "prop_key (Str s) = s"
| "prop_key (Obj xs) = ''[object Object]''"
| "prop_key (Fun f) = f"
| "prop_key (Closure h opts) =
     (case h of
        Success_handler \<Rightarrow> ''function( resp ) { ... }''
      | Error_handler \<Rightarrow> ''function() { ... }'')"

text \<open>The own properties of a value: those of an object, none for anything else.\<close>

fun props :: "jsval \<Rightarrow> object" where
  "props (Obj xs) = xs"
| "props v = []"

text \<open>\<^verbatim>\<open>o[k]\<close>: the value of property \<open>k\<close>, \<^verbatim>\<open>undefined\<close> when \<open>o\<close> has none.\<close>

definition lookup :: "object \<Rightarrow> string \<Rightarrow> jsval" where
  "lookup o' k = (case map_of o' k of None \<Rightarrow> Undefined | Some v \<Rightarrow> v)"

text \<open>\<^verbatim>\<open>k in o\<close>.\<close>

definition has_prop :: "string \<Rightarrow> object \<Rightarrow> bool" where
  "has_prop k o' = (map_of o' k \<noteq> None)"

text \<open>\<^verbatim>\<open>v.name\<close> on a value that is neither \<^verbatim>\<open>null\<close> nor \<^verbatim>\<open>undefined\<close>.\<close>

definition get_prop :: "jsval \<Rightarrow> string \<Rightarrow> jsval" where
  "get_prop v name = lookup (props v) name"

section \<open>The capabilities the model consumes\<close>

text \<open>
  What a model instance does that leaves \<^verbatim>\<open>model.js\<close> is recorded in a trace, in the
  order it happens: notifications published on the instance, calls of the overridable
  methods \<^verbatim>\<open>init\<close>, \<^verbatim>\<open>url\<close> and \<^verbatim>\<open>parse\<close>, requests handed to the transport, and calls of
  functions handed in by the caller. The listeners, the method bodies and the callbacks
  themselves are the caller's code; the model does not run them. \<open>Self\<close> is the
  instance itself.
\<close>

datatype arg = Self | Val jsval

datatype event =
    Triggered string "arg list"
  | Invoked string "jsval list"
  | Called jsval arg "arg list"

text \<open>
  One instance: \<^verbatim>\<open>attributes\<close>, \<^verbatim>\<open>_previousAttributes\<close> (\<open>None\<close> while the property is
  not there), \<^verbatim>\<open>cid\<close>, and \<open>own\<close> for the other properties written on the instance, which
  is where \<^verbatim>\<open>me[ me.idAttribute ]\<close> goes; \<^verbatim>\<open>idAttribute\<close> is taken not to name one of the
  instance's members.
\<close>

record model =
  attributes :: object
  previousAttributes :: "object option"
  cid :: jsval
  own :: object
  trace :: "event list"

text \<open>
  What a model type fixes on its prototype: \<^verbatim>\<open>idAttribute\<close>, \<^verbatim>\<open>defaults\<close>, and the results
  of the hooks \<^verbatim>\<open>url\<close> and \<^verbatim>\<open>parse\<close>, which may read the instance.
\<close>

record proto =
  idAttribute :: string
  defaults :: jsval
  url :: "model \<Rightarrow> jsval"
  parse :: "model \<Rightarrow> jsval \<Rightarrow> jsval \<Rightarrow> jsval"

text \<open>The base prototype of \<^verbatim>\<open>Chassis.Model\<close> (lines 33 to 321).\<close>

definition Model_prototype :: proto where
  "Model_prototype =
     \<lparr> idAttribute = ''id'',
       defaults = Undefined,
       url = (\<lambda>me. Undefined),
       parse = (\<lambda>me resp opts. resp) \<rparr>"

text \<open>
  Modelled from the spec: \<^verbatim>\<open>Chassis.clone\<close> is not in \<^verbatim>\<open>model.js\<close>; the spec gives it as
  returning an independent structural copy of its argument.
\<close>

primrec clone :: "jsval \<Rightarrow> jsval" where
  "clone Undefined = Undefined"
| "clone Null = Null"
| "clone (Bool b) = Bool b"
| "clone (Num n) = Num n"
| "clone (Str s) = Str s"
| "clone (Obj xs) = Obj (map (map_prod id clone) xs)"
| "clone (Fun f) = Fun f"
| "clone (Closure h opts) = Closure h opts"

text \<open>
  Modelled from the spec: \<^verbatim>\<open>Chassis.mixin\<close> is not in \<^verbatim>\<open>model.js\<close>; the spec gives it as
  merging the properties of the sources into the target from left to right, later
  sources winning, and returning the target. \<open>assign\<close> is the step for one source.
\<close>

definition assign :: "object \<Rightarrow> object \<Rightarrow> object" where
  "assign target source = fold (\<lambda>(k, v). AList.update k v) (AList.clearjunk source) target"

definition mixin :: "jsval \<Rightarrow> jsval list \<Rightarrow> jsval" where
  "mixin target sources =
     (case target of
        Obj t \<Rightarrow> Obj (fold (\<lambda>s t. assign t (props s)) sources t)
      | _ \<Rightarrow> target)"

text \<open>
  Modelled from the spec: \<^verbatim>\<open>Chassis.$.each\<close> is not in \<^verbatim>\<open>model.js\<close>; the spec has \<^verbatim>\<open>set\<close>
  visit every key of the incoming mapping, so \<open>each\<close> calls the function once for every
  property of the object, in order, threading the instance through.
\<close>

definition each :: "object \<Rightarrow> (string \<Rightarrow> jsval \<Rightarrow> model \<Rightarrow> model) \<Rightarrow> model \<Rightarrow> model" where
  "each obj f me = fold (\<lambda>(k, item). f k item) (AList.clearjunk obj) me"

text \<open>
  Modelled from the spec: \<^verbatim>\<open>trigger\<close> comes from \<^verbatim>\<open>Events\<close>, which is not in \<^verbatim>\<open>model.js\<close>;
  the spec gives it as publishing the notification on the instance.
\<close>

definition trigger :: "string \<Rightarrow> arg list \<Rightarrow> model \<Rightarrow> model" where
  "trigger name payload me = me\<lparr>trace := trace me @ [Triggered name payload]\<rparr>"

text \<open>
  Modelled from the spec: \<^verbatim>\<open>Chassis.uniqueId\<close> is not in \<^verbatim>\<open>model.js\<close>; the spec gives it
  as producing, from a prefix, a string unique in the process. The process keeps a
  counter; the id is the prefix followed by the next count.
\<close>

definition uniqueId :: "string \<Rightarrow> nat \<Rightarrow> jsval \<times> nat" where
  "uniqueId prefix idCounter = (Str (prefix @ dec (Suc idCounter)), Suc idCounter)"

text \<open>A call of an overridable method of the instance.\<close>

definition invoke :: "string \<Rightarrow> jsval list \<Rightarrow> model \<Rightarrow> model" where
  "invoke name args me = me\<lparr>trace := trace me @ [Invoked name args]\<rparr>"

section \<open>The attribute store\<close>

text \<open>\<^verbatim>\<open>get\<close> (lines 102 to 104).\<close>

definition get :: "string \<Rightarrow> model \<Rightarrow> jsval" where
  "get key me = lookup (attributes me) key"

text \<open>\<^verbatim>\<open>has\<close> (lines 124 to 126): \<^verbatim>\<open>this.get( key ) !== null\<close>.\<close>

definition has :: "string \<Rightarrow> model \<Rightarrow> bool" where
  "has key me = (get key me \<noteq> Null)"

text \<open>
  \<^verbatim>\<open>set\<close> (lines 153 to 198). It returns the instance from the guard on \<^verbatim>\<open>null\<close> and
  nothing (\<^verbatim>\<open>undefined\<close>) from the end of its body.
\<close>

definition set_model :: "proto \<Rightarrow> jsval \<Rightarrow> jsval \<Rightarrow> jsval \<Rightarrow> model \<Rightarrow> arg \<times> model" where
  "set_model p key val opts me =
     (if key = Null then (Self, me)
      else
        let (attrs, opts) =
              (if typeof key = ''object'' then (props key, val)
               else ([(prop_key key, val)], opts));
            opts = (if \<not> truthy opts then Obj [] else opts);
            me = me\<lparr>previousAttributes := Some (props (clone (Obj (attributes me))))\<rparr>;
            me = (if has_prop (idAttribute p) attrs
                  then me\<lparr>own := AList.update (idAttribute p) (lookup attrs (idAttribute p)) (own me)\<rparr>
                  else me);
            me = each attrs
                   (\<lambda>key item me.
                      if truthy (get_prop opts ''unset'')
                      then me\<lparr>attributes := AList.delete key (attributes me)\<rparr>
                      else me\<lparr>attributes := AList.update key item (attributes me)\<rparr>)
                   me;
            me = (if \<not> truthy (get_prop opts ''silent'') then trigger ''change'' [Self] me else me)
        in (Val Undefined, me))"

text \<open>\<^verbatim>\<open>toJSON\<close> (lines 220 to 222).\<close>

definition toJSON :: "model \<Rightarrow> jsval" where
  "toJSON me = clone (Obj (attributes me))"

text \<open>\<^verbatim>\<open>change\<close> (lines 313 to 315).\<close>

definition change :: "model \<Rightarrow> model" where
  "change me = trigger ''change'' [] me"

section \<open>Construction\<close>

text \<open>
  The constructor (lines 13 to 31), called with the list of its arguments and the
  process's id counter. The file has no strict directive, so \<^verbatim>\<open>arguments\<close> is tied to
  the parameters for as many arguments as the caller passed: when \<^verbatim>\<open>opts\<close> was passed,
  the assignment of line 19 also changes \<^verbatim>\<open>arguments[1]\<close>.
\<close>

definition nth_arg :: "jsval list \<Rightarrow> nat \<Rightarrow> jsval" where
  "nth_arg args i = (if i < length args then args ! i else Undefined)"

definition Model :: "proto \<Rightarrow> jsval list \<Rightarrow> nat \<Rightarrow> model \<times> nat" where
  "Model p arguments idCounter =
     (let attributes_arg = nth_arg arguments 0;
          opts = nth_arg arguments 1;
          attrs = (if truthy attributes_arg then attributes_arg else Obj []);
          (opts, arguments) =
            (if \<not> truthy opts
             then (Obj [], if 1 < length arguments then arguments[1 := Obj []] else arguments)
             else (opts, arguments));
          me = \<lparr> attributes = [], previousAttributes = None, cid = Undefined,
                 own = [], trace = [] \<rparr>;
          (c, idCounter) = uniqueId ''c'' idCounter;
          me = me\<lparr>cid := c\<rparr>;
          attrs = mixin (Obj []) [if truthy (defaults p) then defaults p else Obj [], attrs];
          (r, me) = set_model p attrs opts Undefined me;
          me = invoke ''init'' arguments me
      in (me, idCounter))"

section \<open>The sync lifecycle\<close>

datatype error = TypeError

text \<open>
  \<^verbatim>\<open>f.call( this, args )\<close> in \<^verbatim>\<open>model.js\<close>: the call of a function value is recorded;
  calling anything that is not a function raises \<^verbatim>\<open>TypeError\<close>.
\<close>

definition call :: "jsval \<Rightarrow> arg \<Rightarrow> arg list \<Rightarrow> model \<Rightarrow> error + model" where
  "call f this args me =
     (if typeof f = ''function''
      then Inr (me\<lparr>trace := trace me @ [Called f this args]\<rparr>)
      else Inl TypeError)"

text \<open>
  Modelled from the spec: \<^verbatim>\<open>Chassis.$.ajax\<close> is not in \<^verbatim>\<open>model.js\<close>; the spec gives the
  transport as taking a request descriptor and, later, calling exactly one of the
  descriptor's \<^verbatim>\<open>success\<close> and \<^verbatim>\<open>error\<close> once. Handing it the request is recorded; how
  the request ends is an \<open>outcome\<close>.
\<close>

definition ajax :: "jsval \<Rightarrow> model \<Rightarrow> model" where
  "ajax opts me = invoke ''$.ajax'' [opts] me"

datatype outcome = Success jsval | Failure

text \<open>\<^verbatim>\<open>sync\<close> (lines 317 to 319).\<close>

definition sync :: "jsval \<Rightarrow> model \<Rightarrow> model" where
  "sync opts me = ajax opts me"

text \<open>
  The bodies of the two closures that \<^verbatim>\<open>fetch\<close> puts into the request (lines 260 to
  268), as functions of the normalised options \<^verbatim>\<open>opts\<close> they close over and of the
  instance as it is when they are called.
\<close>

definition fetch_success :: "proto \<Rightarrow> jsval \<Rightarrow> jsval \<Rightarrow> model \<Rightarrow> error + model" where
  "fetch_success p opts resp me =
     (let parsed = parse p me resp opts;
          me = invoke ''parse'' [resp, opts] me
      in case call (get_prop opts ''success'') Self [] me of
           Inl e \<Rightarrow> Inl e
         | Inr me \<Rightarrow> Inr (snd (set_model p parsed opts Undefined me)))"

definition fetch_error :: "model \<Rightarrow> model" where
  "fetch_error me = trigger ''error'' [] me"

text \<open>
  \<^verbatim>\<open>fetch\<close> (lines 247 to 273) up to the point where it returns: it normalises the
  options, builds the request \<^verbatim>\<open>_opt\<close> and hands it to \<^verbatim>\<open>sync\<close>. The result is that
  request, which the transport keeps, and the instance.
\<close>

definition fetch :: "proto \<Rightarrow> jsval \<Rightarrow> model \<Rightarrow> jsval \<times> model" where
  "fetch p opts me =
     (let opts = (if truthy opts then clone opts else Obj []);
          opts = mixin (Obj [])
                   [Obj [(''dataType'', Str ''json''), (''success'', Fun ''function() {}'')],
                    opts];
          u = url p me;
          me = invoke ''url'' [] me;
          opt = mixin (Obj [])
                  [opts,
                   Obj [(''url'', u),
                        (''success'', Closure Success_handler opts),
                        (''error'', Closure Error_handler opts)]];
          me = sync opt me
      in (opt, me))"

text \<open>
  The transport ends a request: it calls the function that the request has under
  \<^verbatim>\<open>success\<close>, with the response, or the one it has under \<^verbatim>\<open>error\<close>. Calling a closure of
  \<^verbatim>\<open>fetch\<close> runs its body; a call of a function of the caller's is recorded; anything else
  cannot be called.
\<close>

definition run :: "proto \<Rightarrow> jsval \<Rightarrow> jsval list \<Rightarrow> model \<Rightarrow> error + model" where
  "run p f args me =
     (case f of
        Closure h opts \<Rightarrow>
          (case h of
             Success_handler \<Rightarrow> fetch_success p opts (nth_arg args 0) me
           | Error_handler \<Rightarrow> Inr (fetch_error me))
      | Fun src \<Rightarrow> Inr (me\<lparr>trace := trace me @ [Called f (Val Undefined) (map Val args)]\<rparr>)
      | _ \<Rightarrow> Inl TypeError)"

definition settle :: "proto \<Rightarrow> jsval \<Rightarrow> outcome \<Rightarrow> model \<Rightarrow> error + model" where
  "settle p request out me =
     (case out of
        Success resp \<Rightarrow> run p (get_prop request ''success'') [resp] me
      | Failure \<Rightarrow> run p (get_prop request ''error'') [] me)"

section \<open>Notions used to state the properties\<close>

text \<open>
  The incoming mapping and the options of a \<^verbatim>\<open>set\<close> call after lines 169 to 178 have
  brought the two call forms together.
\<close>

definition incoming :: "jsval \<Rightarrow> jsval \<Rightarrow> object" where
  "incoming key val = (if typeof key = ''object'' then props key else [(prop_key key, val)])"

definition options :: "jsval \<Rightarrow> jsval \<Rightarrow> jsval \<Rightarrow> jsval" where
  "options key val opts =
     (let opts = (if typeof key = ''object'' then val else opts)
      in if \<not> truthy opts then Obj [] else opts)"

text \<open>The options of a \<^verbatim>\<open>fetch\<close> call after lines 251 to 256 have normalised them.\<close>

definition fetch_options :: "jsval \<Rightarrow> jsval" where
  "fetch_options opts =
     mixin (Obj [])
       [Obj [(''dataType'', Str ''json''), (''success'', Fun ''function() {}'')],
        if truthy opts then clone opts else Obj []]"

text \<open>A snapshot after every key of a mapping has been deleted from it.\<close>

definition remove_keys :: "object \<Rightarrow> object \<Rightarrow> object" where
  "remove_keys attrs current = fold (\<lambda>(k, v). AList.delete k) (AList.clearjunk attrs) current"

text \<open>
  Instances and model types to run the code on: new instances, one that has seen a
  \<^verbatim>\<open>set\<close>, a type with defaults, and a type whose \<^verbatim>\<open>parse\<close> returns the \<^verbatim>\<open>data\<close> of the
  response.
\<close>

definition fresh :: model where
  "fresh = fst (Model Model_prototype [] 0)"

definition quiet :: model where
  "quiet = fst (Model Model_prototype [Obj [(''z'', Num 0)], Obj [(''silent'', Bool True)]] 0)"

definition titled :: model where
  "titled = snd (set_model Model_prototype (Str ''title'') (Str ''a'') Undefined fresh)"

definition Article :: proto where
  "Article = Model_prototype\<lparr>defaults := Obj [(''title'', Str ''x''), (''views'', Num 0)]\<rparr>"

definition Feed :: proto where
  "Feed = Model_prototype\<lparr>parse := (\<lambda>me resp opts. get_prop resp ''data'')\<rparr>"

section \<open>Properties of the attribute store\<close>

lemma clone_id: "clone v = v"
proof (induction v)
  case (Obj xs)
  have "map (map_prod id clone) xs = xs"
    using Obj by (intro map_idI) auto
  then show ?case by simp
qed simp_all

lemma fold_write_attributes:
  "fold (\<lambda>(k, item) me. me\<lparr>attributes := AList.update k item (attributes me)\<rparr>) xs me
     = me\<lparr>attributes := fold (\<lambda>(k, v). AList.update k v) xs (attributes me)\<rparr>"
  by (induction xs arbitrary: me) (auto simp: case_prod_beta)

lemma fold_delete_attributes:
  "fold (\<lambda>(k, item) me. me\<lparr>attributes := AList.delete k (attributes me)\<rparr>) xs me
     = me\<lparr>attributes := fold (\<lambda>(k, v). AList.delete k) xs (attributes me)\<rparr>"
  by (induction xs arbitrary: me) (auto simp: case_prod_beta)

lemma each_write:
  "each attrs (\<lambda>k item me. me\<lparr>attributes := AList.update k item (attributes me)\<rparr>) me
     = me\<lparr>attributes := assign (attributes me) attrs\<rparr>"
  by (simp add: each_def assign_def fold_write_attributes)

lemma each_delete:
  "each attrs (\<lambda>k item me. me\<lparr>attributes := AList.delete k (attributes me)\<rparr>) me
     = me\<lparr>attributes := remove_keys attrs (attributes me)\<rparr>"
  by (simp add: each_def remove_keys_def fold_delete_attributes)

lemma map_of_fold_update:
  "distinct (map fst xs) \<Longrightarrow>
   map_of (fold (\<lambda>(k, v). AList.update k v) xs t) = map_of t ++ map_of xs"
proof (induction xs arbitrary: t)
  case Nil
  then show ?case by simp
next
  case (Cons x xs)
  obtain k v where x: "x = (k, v)" by (cases x)
  from Cons.prems x have k: "k \<notin> fst ` set xs" and d: "distinct (map fst xs)" by auto
  have "map_of (fold (\<lambda>(k, v). AList.update k v) (x # xs) t)
          = map_of (AList.update k v t) ++ map_of xs"
    using Cons.IH [OF d] x by simp
  also have "\<dots> = (map_of t)(k \<mapsto> v) ++ map_of xs"
    by (simp add: update_conv')
  also have "\<dots> = map_of t ++ map_of (x # xs)"
  proof -
    have "k \<notin> dom (map_of xs)"
      using k by (simp add: dom_map_of_conv_image_fst)
    then show ?thesis
      using x by (simp add: map_add_upd_left)
  qed
  finally show ?case .
qed

lemma map_of_assign: "map_of (assign current attrs) = map_of current ++ map_of attrs"
  by (simp add: assign_def map_of_fold_update map_of_clearjunk)

lemma map_of_fold_delete:
  "map_of (fold (\<lambda>(k, v). AList.delete k) xs t) k'
     = (if k' \<in> fst ` set xs then None else map_of t k')"
  by (induction xs arbitrary: t) (auto simp: delete_conv' case_prod_beta)

lemma map_of_remove_keys:
  "map_of (remove_keys attrs current) k = (if map_of attrs k = None then map_of current k else None)"
  by (simp add: remove_keys_def map_of_fold_delete dom_clearjunk map_of_eq_None_iff)

lemma set_model_eq:
  assumes "key \<noteq> Null"
  shows "set_model p key val opts me =
    (Val Undefined,
     me\<lparr> previousAttributes := Some (attributes me),
         own := (if has_prop (idAttribute p) (incoming key val)
                 then AList.update (idAttribute p) (lookup (incoming key val) (idAttribute p)) (own me)
                 else own me),
         attributes := (if truthy (get_prop (options key val opts) ''unset'')
                        then remove_keys (incoming key val) (attributes me)
                        else assign (attributes me) (incoming key val)),
         trace := (if truthy (get_prop (options key val opts) ''silent'') then trace me
                   else trace me @ [Triggered ''change'' [Self]]) \<rparr>)"
  using assms
  by (simp add: set_model_def incoming_def options_def clone_id each_write each_delete
        trigger_def Let_def)

text \<open>
  C6: \<^verbatim>\<open>set(null, ...)\<close> does nothing and returns the instance: whatever the other
  arguments are, the instance that comes back is the one that went in (no attribute
  written or deleted, nothing published), and no error is raised.
\<close>

theorem set_null_noop: "set_model p Null val opts me = (Self, me)"
  by (simp add: set_model_def)

lemma options_of_mapping: "get_prop (options (Obj A) val opts) name = get_prop val name"
  by (cases val) (simp_all add: options_def get_prop_def lookup_def)

lemma attributes_fresh: "attributes fresh = []"
  by code_simp

lemma attributes_quiet: "attributes quiet = [(''z'', Num 0)]"
  by code_simp

lemma attributes_titled: "attributes titled = [(''title'', Str ''a'')]"
  by code_simp

text \<open>
  C1: \<^verbatim>\<open>has(k)\<close> is meant to be true exactly when \<^verbatim>\<open>get(k)\<close> is neither \<^verbatim>\<open>undefined\<close> nor
  \<^verbatim>\<open>null\<close>. The code compares with \<^verbatim>\<open>!== null\<close> only: on a new instance, where \<^verbatim>\<open>title\<close>
  was never set, \<^verbatim>\<open>get\<close> returns \<^verbatim>\<open>undefined\<close> and \<^verbatim>\<open>has\<close> returns true; the same after
  \<^verbatim>\<open>title\<close> has been set and then removed with \<^verbatim>\<open>{unset: true}\<close>.
\<close>

theorem has_true_without_value:
  "get ''title'' fresh = Undefined \<and> has ''title'' fresh \<and>
   get ''title'' (snd (set_model Model_prototype (Str ''title'') Undefined
                         (Obj [(''unset'', Bool True)]) titled)) = Undefined \<and>
   has ''title'' (snd (set_model Model_prototype (Str ''title'') Undefined
                         (Obj [(''unset'', Bool True)]) titled))"
  by code_simp

text \<open>
  C4, as the code has it: every \<^verbatim>\<open>set\<close> call whose first argument is not \<^verbatim>\<open>null\<close> leaves
  in \<^verbatim>\<open>_previousAttributes\<close> what \<^verbatim>\<open>Chassis.clone\<close> made of the snapshot when the call
  began, the deep and independent copy: it is the snapshot as it was then, value for
  value at every depth, whatever the call then writes or deletes, and also when it
  changes nothing.
\<close>

theorem set_snapshots_previous:
  assumes "key \<noteq> Null"
  shows "previousAttributes (snd (set_model p key val opts me))
           = Some (props (clone (Obj (attributes me)))) \<and>
         previousAttributes (snd (set_model p key val opts me)) = Some (attributes me)"
  using assms by (simp add: set_model_eq clone_id)

theorem set_snapshots_previous_witness:
  "Str ''title'' \<noteq> Null \<and>
   previousAttributes (snd (set_model Model_prototype (Str ''title'') (Str ''b'')
                              (Obj [(''unset'', Bool True)]) titled))
     = Some [(''title'', Str ''a'')]"
  using set_snapshots_previous [of "Str ''title''" Model_prototype "Str ''b''"
          "Obj [(''unset'', Bool True)]" titled]
  by (simp add: attributes_titled)

text \<open>
  C4 as stated fails for \<^verbatim>\<open>set(null)\<close>: the guard returns before the snapshot is taken.
  On an instance whose \<^verbatim>\<open>title\<close> has been set once, the previous snapshot after
  \<^verbatim>\<open>set(null)\<close> is still the empty one, not a copy of the current snapshot.
\<close>

theorem set_null_keeps_previous:
  "previousAttributes (snd (set_model Model_prototype Null Undefined Undefined titled))
     \<noteq> Some (attributes titled)"
  by code_simp

text \<open>
  C5, as the code has it: a \<^verbatim>\<open>set\<close> call whose first argument is not \<^verbatim>\<open>null\<close> publishes
  nothing when its options have \<^verbatim>\<open>silent\<close> set, and otherwise publishes exactly one
  notification, \<^verbatim>\<open>change\<close> with the instance as payload, whatever the incoming mapping
  and the current values are.
\<close>

theorem set_publishes_change:
  assumes "key \<noteq> Null"
  shows "trace (snd (set_model p key val opts me))
           = trace me @ (if truthy (get_prop (options key val opts) ''silent'') then []
                         else [Triggered ''change'' [Self]])"
  using assms by (simp add: set_model_eq)

theorem set_publishes_change_witness:
  "Obj [(''title'', Str ''a'')] \<noteq> Null \<and>
   trace (snd (set_model Model_prototype (Obj [(''title'', Str ''a'')]) Undefined Undefined titled))
     = trace titled @ [Triggered ''change'' [Self]] \<and>
   trace (snd (set_model Model_prototype (Obj [(''title'', Str ''a'')])
                 (Obj [(''silent'', Bool True)]) Undefined titled))
     = trace titled"
  using set_publishes_change [of "Obj [(''title'', Str ''a'')]" Model_prototype Undefined
          Undefined titled]
        set_publishes_change [of "Obj [(''title'', Str ''a'')]" Model_prototype
          "Obj [(''silent'', Bool True)]" Undefined titled]
  by (simp add: options_def get_prop_def lookup_def)

text \<open>
  C5 as stated fails for \<^verbatim>\<open>set(null)\<close>: no option is given, so \<^verbatim>\<open>silent\<close> is not set,
  and the call publishes nothing.
\<close>

theorem set_null_publishes_nothing:
  "\<not> truthy (get_prop (options Null Undefined Undefined) ''silent'') \<and>
   trace (snd (set_model Model_prototype Null Undefined Undefined fresh)) = trace fresh \<and>
   trace (snd (set_model Model_prototype Null Undefined Undefined fresh))
     \<noteq> trace fresh @ [Triggered ''change'' [Self]]"
  by (simp add: set_model_def options_def get_prop_def lookup_def)

text \<open>
  C7, as the code has it: \<^verbatim>\<open>set(A)\<close> then \<^verbatim>\<open>set(B)\<close>, neither with \<^verbatim>\<open>unset\<close>, leaves the
  current snapshot equal to the snapshot before the two calls overridden by \<open>A\<close>
  overridden by \<open>B\<close>; on an instance whose snapshot was empty that is the union of \<open>A\<close>
  and \<open>B\<close> with \<open>B\<close> winning on common keys.
\<close>

theorem set_set_union:
  assumes "\<not> truthy (get_prop oA ''unset'')" and "\<not> truthy (get_prop oB ''unset'')"
  shows "map_of (attributes (snd (set_model p (Obj B) oB y
                                 (snd (set_model p (Obj A) oA x me)))))
           = map_of (attributes me) ++ map_of A ++ map_of B"
  using assms
  by (simp add: set_model_eq options_of_mapping incoming_def map_of_assign)

theorem set_set_union_witness:
  "\<not> truthy (get_prop Undefined ''unset'') \<and>
   map_of (attributes (snd (set_model Model_prototype
             (Obj [(''views'', Num 2), (''title'', Str ''b'')]) Undefined Undefined
             (snd (set_model Model_prototype (Obj [(''title'', Str ''a'')]) Undefined Undefined
                    fresh)))))
     = map_of [(''title'', Str ''a'')] ++ map_of [(''views'', Num 2), (''title'', Str ''b'')]"
proof -
  have u: "\<not> truthy (get_prop Undefined ''unset'')"
    by (simp add: get_prop_def lookup_def)
  show ?thesis
    using u set_set_union [OF u u, of Model_prototype
            "[(''views'', Num 2), (''title'', Str ''b'')]" Undefined
            "[(''title'', Str ''a'')]" Undefined fresh]
    by (simp add: attributes_fresh)
qed

text \<open>
  C7 as stated fails on an instance that already holds an attribute: constructed with
  \<^verbatim>\<open>{z: 0}\<close>, after \<^verbatim>\<open>set({a: 1})\<close> and \<^verbatim>\<open>set({b: 2})\<close> the snapshot still has \<^verbatim>\<open>z\<close>, which
  the union of the two mappings has not.
\<close>

theorem set_set_keeps_other_keys:
  "map_of (attributes (snd (set_model Model_prototype (Obj [(''b'', Num 2)]) Undefined Undefined
             (snd (set_model Model_prototype (Obj [(''a'', Num 1)]) Undefined Undefined quiet)))))
     \<noteq> map_of [(''a'', Num 1)] ++ map_of [(''b'', Num 2)]"
proof
  assume "map_of (attributes (snd (set_model Model_prototype (Obj [(''b'', Num 2)]) Undefined
             Undefined
             (snd (set_model Model_prototype (Obj [(''a'', Num 1)]) Undefined Undefined quiet)))))
     = map_of [(''a'', Num 1)] ++ map_of [(''b'', Num 2)]"
  then have "map_of (attributes (snd (set_model Model_prototype (Obj [(''b'', Num 2)]) Undefined
             Undefined
             (snd (set_model Model_prototype (Obj [(''a'', Num 1)]) Undefined Undefined quiet)))))
             ''z''
     = (map_of [(''a'', Num 1)] ++ map_of [(''b'', Num 2)]) ''z''"
    by (rule fun_cong)
  then show False
    by (simp add: set_model_eq incoming_def options_def get_prop_def lookup_def map_of_assign
          attributes_quiet)
qed

text \<open>
  C9: when the incoming mapping of a \<^verbatim>\<open>set\<close> call has the key named by \<^verbatim>\<open>idAttribute\<close>,
  with value \<open>v\<close>, and the call is not an unset, then afterwards the instance's own
  property of that name is \<open>v\<close> and \<^verbatim>\<open>get\<close> of that name is \<open>v\<close> as well.
\<close>

theorem set_mirrors_id:
  assumes "key \<noteq> Null"
    and "map_of (incoming key val) (idAttribute p) = Some v"
    and "\<not> truthy (get_prop (options key val opts) ''unset'')"
  shows "map_of (own (snd (set_model p key val opts me))) (idAttribute p) = Some v \<and>
         get (idAttribute p) (snd (set_model p key val opts me)) = v"
  using assms
  by (simp add: set_model_eq has_prop_def lookup_def update_conv' get_def map_of_assign)

theorem set_mirrors_id_witness:
  "Obj [(''title'', Str ''a''), (''id'', Num 7)] \<noteq> Null \<and>
   map_of (incoming (Obj [(''title'', Str ''a''), (''id'', Num 7)]) Undefined)
     (idAttribute Model_prototype) = Some (Num 7) \<and>
   \<not> truthy (get_prop (options (Obj [(''title'', Str ''a''), (''id'', Num 7)]) Undefined Undefined)
               ''unset'') \<and>
   map_of (own (snd (set_model Model_prototype (Obj [(''title'', Str ''a''), (''id'', Num 7)])
                       Undefined Undefined fresh))) ''id'' = Some (Num 7) \<and>
   get ''id'' (snd (set_model Model_prototype (Obj [(''title'', Str ''a''), (''id'', Num 7)])
                      Undefined Undefined fresh)) = Num 7"
proof -
  have k: "Obj [(''title'', Str ''a''), (''id'', Num 7)] \<noteq> Null"
    by simp
  have i: "map_of (incoming (Obj [(''title'', Str ''a''), (''id'', Num 7)]) Undefined)
             (idAttribute Model_prototype) = Some (Num 7)"
    by (simp add: incoming_def Model_prototype_def)
  have u: "\<not> truthy (get_prop (options (Obj [(''title'', Str ''a''), (''id'', Num 7)])
                                Undefined Undefined) ''unset'')"
    by (simp add: options_def get_prop_def lookup_def)
  have n: "idAttribute Model_prototype = ''id''"
    by (simp add: Model_prototype_def)
  show ?thesis
    using k i u set_mirrors_id [OF k i u, of fresh] by (simp add: n)
qed

text \<open>
  C10: when the incoming mapping of a \<^verbatim>\<open>set\<close> call with \<^verbatim>\<open>{unset: true}\<close> has the key named
  by \<^verbatim>\<open>idAttribute\<close>, with value \<open>v\<close>, the instance's own property of that name is still
  set to \<open>v\<close>, while the key is deleted from the snapshot: \<^verbatim>\<open>get\<close> of that name returns
  \<^verbatim>\<open>undefined\<close>.
\<close>

theorem unset_still_mirrors_id:
  assumes "key \<noteq> Null"
    and "map_of (incoming key val) (idAttribute p) = Some v"
    and "truthy (get_prop (options key val opts) ''unset'')"
  shows "map_of (own (snd (set_model p key val opts me))) (idAttribute p) = Some v \<and>
         get (idAttribute p) (snd (set_model p key val opts me)) = Undefined \<and>
         \<not> has_prop (idAttribute p) (attributes (snd (set_model p key val opts me)))"
  using assms
  by (simp add: set_model_eq has_prop_def lookup_def update_conv' get_def map_of_remove_keys)

theorem unset_still_mirrors_id_witness:
  "Str ''id'' \<noteq> Null \<and>
   map_of (incoming (Str ''id'') (Num 7)) (idAttribute Model_prototype) = Some (Num 7) \<and>
   truthy (get_prop (options (Str ''id'') (Num 7) (Obj [(''unset'', Bool True)])) ''unset'') \<and>
   map_of (own (snd (set_model Model_prototype (Str ''id'') (Num 7)
                       (Obj [(''unset'', Bool True)]) titled))) ''id'' = Some (Num 7) \<and>
   get ''id'' (snd (set_model Model_prototype (Str ''id'') (Num 7)
                      (Obj [(''unset'', Bool True)]) titled)) = Undefined"
proof -
  have k: "Str ''id'' \<noteq> Null"
    by simp
  have i: "map_of (incoming (Str ''id'') (Num 7)) (idAttribute Model_prototype) = Some (Num 7)"
    by (simp add: incoming_def Model_prototype_def)
  have u: "truthy (get_prop (options (Str ''id'') (Num 7) (Obj [(''unset'', Bool True)]))
                     ''unset'')"
    by (simp add: options_def get_prop_def lookup_def)
  have n: "idAttribute Model_prototype = ''id''"
    by (simp add: Model_prototype_def)
  show ?thesis
    using k i u unset_still_mirrors_id [OF k i u, of titled] by (simp add: n)
qed

section \<open>Properties of construction\<close>

lemma digit_inj:
  assumes "a < 10" and "b < 10" and "''0123456789'' ! a = ''0123456789'' ! b"
  shows "a = b"
proof -
  have "distinct ''0123456789''" by simp
  moreover have "a < length ''0123456789''" "b < length ''0123456789''"
    using assms by simp_all
  ultimately show ?thesis
    using assms(3) by (simp only: nth_eq_iff_index_eq)
qed

lemma length_dec: "length (dec n) = (if n < 10 then 1 else Suc (length (dec (n div 10))))"
  by (subst dec.simps) simp

lemma dec_inj: "dec n = dec m \<Longrightarrow> n = m"
proof (induction n arbitrary: m rule: dec.induct)
  case (1 n)
  show ?case
  proof (cases "n < 10")
    case True
    have "m < 10"
    proof (rule ccontr)
      assume "\<not> m < 10"
      then have "length (dec m) \<ge> 2"
        using length_dec [of m] length_dec [of "m div 10"] by (simp split: if_splits)
      moreover have "length (dec n) = 1"
        using True length_dec [of n] by simp
      ultimately show False using "1.prems" by simp
    qed
    with True "1.prems" show ?thesis
      by (subst (asm) dec.simps, subst (asm) (2) dec.simps) (simp add: digit_inj)
  next
    case False
    have m: "\<not> m < 10"
    proof
      assume "m < 10"
      then have "length (dec m) = 1"
        using length_dec [of m] by simp
      moreover have "length (dec n) \<ge> 2"
        using False length_dec [of n] length_dec [of "n div 10"] by (simp split: if_splits)
      ultimately show False using "1.prems" by simp
    qed
    have "dec (n div 10) @ [''0123456789'' ! (n mod 10)]
            = dec (m div 10) @ [''0123456789'' ! (m mod 10)]"
      using "1.prems" False m dec.simps [of n] dec.simps [of m] by simp
    then have d: "dec (n div 10) = dec (m div 10)"
      and r: "''0123456789'' ! (n mod 10) = ''0123456789'' ! (m mod 10)"
      by simp_all
    have "n div 10 = m div 10"
      using "1.IH" [OF False d] .
    moreover have "n mod 10 = m mod 10"
      using r by (intro digit_inj) simp_all
    ultimately show ?thesis
      by (metis div_mult_mod_eq)
  qed
qed

lemma uniqueId_fresh: "(fst (uniqueId prefix g) = fst (uniqueId prefix g')) = (g = g')"
  by (auto simp: uniqueId_def dest: dec_inj)

lemma props_or_empty: "props (if truthy v then v else Obj []) = props v"
  by (cases v) simp_all

lemma get_prop_or_empty: "get_prop (if \<not> truthy v then Obj [] else v) name = get_prop v name"
  by (cases v) (simp_all add: get_prop_def)

lemma mixin_two:
  "mixin (Obj []) [a, b] = Obj (assign (assign [] (props a)) (props b))"
  by (simp add: mixin_def)

lemma remove_keys_empty: "remove_keys attrs [] = []"
proof -
  have "fold (\<lambda>(k, v). AList.delete k) xs [] = []" for xs :: object
    by (induction xs) (auto simp: case_prod_beta)
  then show ?thesis by (simp add: remove_keys_def)
qed

lemma get_prop_empty: "get_prop (Obj []) name = Undefined"
  by (simp add: get_prop_def lookup_def)

lemma Model_eq:
  "Model p args g =
     (\<lparr> attributes =
          (if truthy (get_prop (nth_arg args 1) ''unset'') then []
           else assign [] (assign (assign [] (props (defaults p))) (props (nth_arg args 0)))),
        previousAttributes = Some [],
        cid = fst (uniqueId ''c'' g),
        own =
          (if has_prop (idAttribute p)
                (assign (assign [] (props (defaults p))) (props (nth_arg args 0)))
           then [(idAttribute p,
                  lookup (assign (assign [] (props (defaults p))) (props (nth_arg args 0)))
                    (idAttribute p))]
           else []),
        trace =
          (if truthy (get_prop (nth_arg args 1) ''silent'') then []
           else [Triggered ''change'' [Self]]) @
          [Invoked ''init''
             (if 1 < length args \<and> \<not> truthy (args ! 1) then args[1 := Obj []] else args)] \<rparr>,
      snd (uniqueId ''c'' g))"
proof (cases "truthy (nth_arg args 1)")
  case True
  then have "1 < length args" and "truthy (args ! 1)"
    by (simp_all add: nth_arg_def split: if_splits)
  with True show ?thesis
    by (simp add: Model_def Let_def mixin_two props_or_empty set_model_eq incoming_def
          options_def remove_keys_empty invoke_def split_beta del: One_nat_def)
next
  case False
  then have e: "get_prop (nth_arg args 1) name = Undefined" for name
    by (cases "nth_arg args 1") (simp_all add: get_prop_def lookup_def)
  have a: "(1 < length args \<and> \<not> truthy (args ! 1)) = (1 < length args)"
    using False by (auto simp: nth_arg_def)
  show ?thesis
    using False
    by (simp add: Model_def Let_def mixin_two props_or_empty set_model_eq incoming_def
          options_def remove_keys_empty invoke_def split_beta e a get_prop_empty
          del: One_nat_def)
qed

text \<open>
  C8, as the code has it: what construction leaves behind, for every model type,
  argument list and state of the id counter. The \<^verbatim>\<open>cid\<close> is the id generator's next id,
  different from the id of any instance made at another state of the counter. \<^verbatim>\<open>set\<close>
  found the snapshot empty (the previous snapshot is the empty one) and was given the
  defaults overridden by the supplied attributes, so these are the current snapshot (or
  nothing, under \<^verbatim>\<open>unset\<close>). The trace is the one \<^verbatim>\<open>change\<close> notification of that \<^verbatim>\<open>set\<close>,
  unless the constructor options have \<^verbatim>\<open>silent\<close>, and then the call of \<^verbatim>\<open>init\<close>. \<^verbatim>\<open>init\<close>
  receives the constructor's arguments, except that a second argument that was passed
  and is falsy has become the empty options object. With defaults
  \<^verbatim>\<open>{title: "x", views: 0}\<close> and attributes \<^verbatim>\<open>{title: "a"}\<close>, \<^verbatim>\<open>toJSON()\<close> is
  \<^verbatim>\<open>{title: "a", views: 0}\<close>.
\<close>

theorem Model_construction:
  "cid (fst (Model p args g)) = fst (uniqueId ''c'' g) \<and>
   snd (Model p args g) = snd (uniqueId ''c'' g) \<and>
   (cid (fst (Model p args g)) = cid (fst (Model p' args' g'))) = (g = g') \<and>
   previousAttributes (fst (Model p args g)) = Some [] \<and>
   map_of (attributes (fst (Model p args g))) =
     (if truthy (get_prop (nth_arg args 1) ''unset'') then Map.empty
      else map_of (props (defaults p)) ++ map_of (props (nth_arg args 0))) \<and>
   trace (fst (Model p args g)) =
     (if truthy (get_prop (nth_arg args 1) ''silent'') then []
      else [Triggered ''change'' [Self]]) @
     [Invoked ''init''
        (if 1 < length args \<and> \<not> truthy (args ! 1) then args[1 := Obj []] else args)] \<and>
   toJSON (fst (Model Article [Obj [(''title'', Str ''a'')]] g))
     = Obj [(''title'', Str ''a''), (''views'', Num 0)]"
proof -
  have "toJSON (fst (Model Article [Obj [(''title'', Str ''a'')]] g))
          = Obj [(''title'', Str ''a''), (''views'', Num 0)]"
    by (simp add: Model_eq toJSON_def clone_id Article_def Model_prototype_def nth_arg_def
          get_prop_def lookup_def assign_def)
  then show ?thesis
    by (simp add: Model_eq map_of_assign uniqueId_fresh)
qed

text \<open>
  C8 as stated fails where it has \<^verbatim>\<open>init\<close> receive the original arguments:
  \<^verbatim>\<open>new Model({}, null)\<close> calls \<^verbatim>\<open>init\<close> with \<^verbatim>\<open>{}\<close> and \<^verbatim>\<open>{}\<close>, not with \<^verbatim>\<open>{}\<close> and \<^verbatim>\<open>null\<close>.
\<close>

theorem init_receives_defaulted_options:
  "last (trace (fst (Model Model_prototype [Obj [], Null] 0)))
     = Invoked ''init'' [Obj [], Obj []] \<and>
   last (trace (fst (Model Model_prototype [Obj [], Null] 0)))
     \<noteq> Invoked ''init'' [Obj [], Null]"
  by code_simp

section \<open>Properties of the sync lifecycle\<close>

lemma fetch_options_eq:
  "fetch_options opts =
     Obj (assign (assign [] [(''dataType'', Str ''json''), (''success'', Fun ''function() {}'')])
            (props opts))"
proof -
  have "props (if truthy opts then clone opts else Obj []) = props opts"
    by (cases opts) (simp_all add: clone_id)
  then show ?thesis
    by (simp add: fetch_options_def mixin_two)
qed

lemma fetch_eq:
  "fetch p opts me =
     (mixin (Obj [])
        [fetch_options opts,
         Obj [(''url'', url p me),
              (''success'', Closure Success_handler (fetch_options opts)),
              (''error'', Closure Error_handler (fetch_options opts))]],
      me\<lparr>trace := trace me @
          [Invoked ''url'' [],
           Invoked ''$.ajax''
             [mixin (Obj [])
                [fetch_options opts,
                 Obj [(''url'', url p me),
                      (''success'', Closure Success_handler (fetch_options opts)),
                      (''error'', Closure Error_handler (fetch_options opts))]]]]\<rparr>)"
  by (simp add: fetch_def Let_def fetch_options_def sync_def ajax_def invoke_def)

lemma request_handlers:
  "get_prop (fst (fetch p opts me)) ''success'' = Closure Success_handler (fetch_options opts)"
  "get_prop (fst (fetch p opts me)) ''error'' = Closure Error_handler (fetch_options opts)"
  by (simp_all add: fetch_eq mixin_two get_prop_def lookup_def map_of_assign)

lemma fetch_options_lookup:
  "get_prop (fetch_options opts) name =
     (case map_of (props opts) name of
        Some v \<Rightarrow> v
      | None \<Rightarrow> lookup [(''dataType'', Str ''json''), (''success'', Fun ''function() {}'')] name)"
  by (simp add: fetch_options_eq get_prop_def lookup_def map_of_assign map_add_def
        split: option.splits)

lemma fetch_keeps_callback:
  assumes "get_prop opts ''success'' = Fun f"
  shows "get_prop (fetch_options opts) ''success'' = Fun f"
  using assms
  by (simp add: fetch_options_lookup) (simp add: get_prop_def lookup_def split: option.splits)

lemma fetch_default_callback:
  assumes "\<not> has_prop ''success'' (props opts)"
  shows "get_prop (fetch_options opts) ''success'' = Fun ''function() {}''"
  using assms by (simp add: fetch_options_lookup has_prop_def lookup_def)

lemma fetch_keeps_option:
  assumes "name \<noteq> ''dataType''" and "name \<noteq> ''success''"
  shows "get_prop (fetch_options opts) name = get_prop opts name"
  using assms
  by (simp add: fetch_options_lookup) (simp add: get_prop_def lookup_def split: option.splits)

lemma fetch_options_truthy: "truthy (fetch_options opts)"
  by (simp add: fetch_options_eq)

lemma options_of_object:
  assumes "typeof parsed = ''object''" and "truthy val"
  shows "options parsed val opts = val"
  using assms by (simp add: options_def)

text \<open>
  C2: a \<^verbatim>\<open>fetch\<close> call leaves the attributes as they are and hands \<^verbatim>\<open>sync\<close> a request
  whose \<^verbatim>\<open>error\<close> entry is the closure of lines 266 to 268, whatever the caller's options
  had there. When the transport calls the \<^verbatim>\<open>error\<close> entry of that request, on the
  instance as it is then, the \<^verbatim>\<open>error\<close> notification is published and nothing else
  changes. So when the request fails, the \<^verbatim>\<open>error\<close> notification is the last thing
  published and the attributes are those from before the \<^verbatim>\<open>fetch\<close> call.
\<close>

theorem fetch_failure_keeps_attributes:
  "attributes (snd (fetch p opts me)) = attributes me \<and>
   trace (snd (fetch p opts me))
     = trace me @ [Invoked ''url'' [], Invoked ''$.ajax'' [fst (fetch p opts me)]] \<and>
   get_prop (fst (fetch p opts me)) ''error'' = Closure Error_handler (fetch_options opts) \<and>
   settle p (fst (fetch p opts me)) Failure me'
     = Inr (me'\<lparr>trace := trace me' @ [Triggered ''error'' []]\<rparr>) \<and>
   (case settle p (fst (fetch p opts me)) Failure (snd (fetch p opts me)) of
      Inl e \<Rightarrow> False
    | Inr m \<Rightarrow> attributes m = attributes me \<and> last (trace m) = Triggered ''error'' [])"
proof -
  have "settle p (fst (fetch p opts me)) Failure m
          = Inr (m\<lparr>trace := trace m @ [Triggered ''error'' []]\<rparr>)" for m
    by (simp add: settle_def request_handlers run_def fetch_error_def trigger_def)
  then show ?thesis
    by (simp add: request_handlers) (simp add: fetch_eq)
qed

text \<open>
  C3, as the code has it. The request that \<^verbatim>\<open>fetch\<close> hands to \<^verbatim>\<open>sync\<close> has the closure of
  lines 260 to 265 under \<^verbatim>\<open>success\<close>. When the \<^verbatim>\<open>success\<close> entry of the normalised options
  (the caller's, or the default) is a function and the parsed response is an object or
  \<^verbatim>\<open>null\<close>, the transport's call of the request's \<^verbatim>\<open>success\<close> entry first passes the
  response through \<^verbatim>\<open>parse\<close>, then calls that function on the instance with no argument,
  then applies the parsed result with \<^verbatim>\<open>set\<close>, the normalised options being the options
  of that call: with \<^verbatim>\<open>silent\<close> given to \<^verbatim>\<open>fetch\<close> no \<^verbatim>\<open>change\<close> is published, and \<^verbatim>\<open>unset\<close>
  given to \<^verbatim>\<open>fetch\<close> decides whether keys are deleted.
\<close>

theorem fetch_success_applies_mapping:
  assumes "typeof (get_prop (fetch_options opts) ''success'') = ''function''"
    and "parse p me' r (fetch_options opts) = parsed"
    and "typeof parsed = ''object''"
  shows "get_prop (fst (fetch p opts me)) ''success''
           = Closure Success_handler (fetch_options opts) \<and>
         options parsed (fetch_options opts) Undefined = fetch_options opts \<and>
         (\<exists>m. settle p (fst (fetch p opts me)) (Success r) me' = Inr m \<and>
           m = snd (set_model p parsed (fetch_options opts) Undefined
                  (me'\<lparr>trace := trace me' @
                     [Invoked ''parse'' [r, fetch_options opts],
                      Called (get_prop (fetch_options opts) ''success'') Self []]\<rparr>)) \<and>
           trace m = trace me' @
                     [Invoked ''parse'' [r, fetch_options opts],
                      Called (get_prop (fetch_options opts) ''success'') Self []] @
                     (if parsed = Null \<or> truthy (get_prop opts ''silent'') then []
                      else [Triggered ''change'' [Self]]) \<and>
           attributes m =
             (if parsed = Null then attributes me'
              else if truthy (get_prop opts ''unset'')
                   then remove_keys (props parsed) (attributes me')
                   else assign (attributes me') (props parsed)) \<and>
           previousAttributes m =
             (if parsed = Null then previousAttributes me' else Some (attributes me')))"
proof -
  have s: "get_prop (fetch_options opts) ''silent'' = get_prop opts ''silent''"
    and u: "get_prop (fetch_options opts) ''unset'' = get_prop opts ''unset''"
    by (simp_all add: fetch_keeps_option)
  have o: "options parsed (fetch_options opts) Undefined = fetch_options opts"
    using assms(3) by (simp add: options_of_object fetch_options_truthy)
  have i: "incoming parsed (fetch_options opts) = props parsed"
    using assms(3) by (simp add: incoming_def)
  have r: "settle p (fst (fetch p opts me)) (Success r) me'
             = Inr (snd (set_model p parsed (fetch_options opts) Undefined
                      (me'\<lparr>trace := trace me' @
                         [Invoked ''parse'' [r, fetch_options opts],
                          Called (get_prop (fetch_options opts) ''success'') Self []]\<rparr>)))"
    using assms(1,2)
    by (simp add: settle_def request_handlers run_def fetch_success_def Let_def call_def
          invoke_def nth_arg_def)
  show ?thesis
  proof (cases "parsed = Null")
    case True
    then show ?thesis
      using r o by (simp add: request_handlers set_model_def)
  next
    case False
    then show ?thesis
      using r o by (simp add: request_handlers set_model_eq i s u)
  qed
qed

theorem fetch_success_applies_mapping_witness:
  "typeof (get_prop (fetch_options (Obj [(''silent'', Bool True), (''success'', Fun ''done'')]))
             ''success'') = ''function'' \<and>
   parse Feed quiet (Obj [(''data'', Obj [(''title'', Str ''b'')])])
     (fetch_options (Obj [(''silent'', Bool True), (''success'', Fun ''done'')]))
     = Obj [(''title'', Str ''b'')] \<and>
   typeof (Obj [(''title'', Str ''b'')]) = ''object'' \<and>
   (\<exists>m. settle Feed
          (fst (fetch Feed (Obj [(''silent'', Bool True), (''success'', Fun ''done'')]) quiet))
          (Success (Obj [(''data'', Obj [(''title'', Str ''b'')])])) quiet = Inr m \<and>
        trace m = trace quiet @
          [Invoked ''parse''
             [Obj [(''data'', Obj [(''title'', Str ''b'')])],
              fetch_options (Obj [(''silent'', Bool True), (''success'', Fun ''done'')])],
           Called (Fun ''done'') Self []] \<and>
        map_of (attributes m) ''title'' = Some (Str ''b''))"
proof -
  have c: "get_prop (fetch_options (Obj [(''silent'', Bool True), (''success'', Fun ''done'')]))
             ''success'' = Fun ''done''"
    by (simp add: fetch_options_lookup)
  then have f: "typeof (get_prop (fetch_options
                  (Obj [(''silent'', Bool True), (''success'', Fun ''done'')])) ''success'')
                = ''function''"
    by simp
  have r: "parse Feed quiet (Obj [(''data'', Obj [(''title'', Str ''b'')])])
             (fetch_options (Obj [(''silent'', Bool True), (''success'', Fun ''done'')]))
             = Obj [(''title'', Str ''b'')]"
    by (simp add: Feed_def get_prop_def lookup_def)
  have t: "typeof (Obj [(''title'', Str ''b'')]) = ''object''"
    by simp
  have s: "truthy (get_prop (Obj [(''silent'', Bool True), (''success'', Fun ''done'')]) ''silent'')"
    and u: "\<not> truthy (get_prop (Obj [(''silent'', Bool True), (''success'', Fun ''done'')])
                         ''unset'')"
    by (simp_all add: get_prop_def lookup_def)
  show ?thesis
    using f r t fetch_success_applies_mapping [OF f r t, of quiet]
    by (auto simp: c s u map_of_assign)
qed

text \<open>
  C3 as stated fails when the response is not an object. With the base \<^verbatim>\<open>parse\<close> and the
  response \<^verbatim>\<open>"x"\<close>, \<^verbatim>\<open>me.set( resp, opts )\<close> is a call of the name and value form: the
  attribute \<^verbatim>\<open>x\<close> is set to the options object, the call has no options of its own, and
  \<^verbatim>\<open>change\<close> is published although \<^verbatim>\<open>fetch\<close> was given \<^verbatim>\<open>{silent: true}\<close>.
\<close>

theorem fetch_string_response_publishes_change:
  "truthy (get_prop (Obj [(''silent'', Bool True)]) ''silent'') \<and>
   (case settle Model_prototype (fst (fetch Model_prototype (Obj [(''silent'', Bool True)]) quiet))
           (Success (Str ''x'')) (snd (fetch Model_prototype (Obj [(''silent'', Bool True)]) quiet))
    of Inl e \<Rightarrow> False
     | Inr m \<Rightarrow>
         last (trace m) = Triggered ''change'' [Self] \<and>
         get ''x'' m = fetch_options (Obj [(''silent'', Bool True)]))"
  by code_simp

end
